theory Spec2Isabelle
  imports Complex_Main
begin

section \<open>Data model (store/types.ts)\<close>

text \<open>
  A \<open>Point\<close> holds two JavaScript numbers. The state machine never computes with
  coordinates, it only stores them, so they are modelled as reals.
\<close>

record Point =
  x :: real
  y :: real

datatype DrawingTool = pen | rectangle | circle

text \<open>
  The field \<open>id\<close> of the source is called \<open>shape_id\<close> here (\<open>id\<close> is the identity
  function of HOL), and \<open>type\<close> is called \<open>shape_type\<close>.
\<close>

record Shape =
  shape_id :: string
  points :: "Point list"
  color :: string
  shape_type :: DrawingTool
  timestamp :: int

text \<open>
  \<open>historyIndex\<close> is a JavaScript number. The model covers the integer values,
  negative ones included, since nothing in the type excludes them.
\<close>

record CanvasState =
  shapes :: "Shape list"
  currentColor :: string
  currentTool :: DrawingTool
  history :: "Shape list list"
  historyIndex :: int
  isDrawing :: bool
  currentPath :: "Point list"

definition initialCanvasState :: CanvasState where
  "initialCanvasState =
     \<lparr>shapes = [], currentColor = ''#000000'', currentTool = pen,
      history = [[]], historyIndex = 0, isDrawing = False, currentPath = []\<rparr>"

section \<open>JavaScript array primitives used by the source\<close>

text \<open>
  \<open>Array.prototype.slice(start, end)\<close> on integer arguments: a negative argument
  counts from the end, and both are clamped to the array.
\<close>

definition js_slice :: "'a list \<Rightarrow> int \<Rightarrow> int \<Rightarrow> 'a list" where
  "js_slice xs start fin =
     (let len = int (length xs);
          k = (if start < 0 then max (len + start) 0 else min start len);
          final = (if fin < 0 then max (len + fin) 0 else min fin len)
      in take (nat (final - k)) (drop (nat k) xs))"

text \<open>\<open>slice(start)\<close> with the end omitted: the end is the length of the array.\<close>

definition js_slice_from :: "'a list \<Rightarrow> int \<Rightarrow> 'a list" where
  "js_slice_from xs start = js_slice xs start (int (length xs))"

text \<open>
  \<open>xs[i]\<close>: reading outside the array gives \<open>undefined\<close>, which is \<open>None\<close> here.
\<close>

definition js_index :: "'a list \<Rightarrow> int \<Rightarrow> 'a option" where
  "js_index xs i = (if 0 \<le> i \<and> i < int (length xs) then Some (xs ! nat i) else None)"

text \<open>
  Spreading \<open>undefined\<close> (\<open>[...undefined]\<close>) throws a \<open>TypeError\<close>; it is the only
  exception the transition functions can raise.
\<close>

datatype error = TypeError

definition spread :: "'a list option \<Rightarrow> error + 'a list" where
  "spread v = (case v of None \<Rightarrow> Inl TypeError | Some xs \<Rightarrow> Inr xs)"

section \<open>Shape creation and the history engine (store/utils.ts)\<close>

text \<open>
  \<open>createShape\<close> calls \<open>generateShapeId()\<close> and \<open>Date.now()\<close>. Their results are the
  two components of the parameter \<open>fresh\<close>: the id and the timestamp given to a shape
  created during this call.
\<close>

type_synonym fresh = "string \<times> int"

definition createShape :: "fresh \<Rightarrow> Point list \<Rightarrow> string \<Rightarrow> DrawingTool \<Rightarrow> Shape" where
  "createShape fr pts c t =
     \<lparr>shape_id = fst fr, points = pts, color = c, shape_type = t, timestamp = snd fr\<rparr>"

text \<open>The pair returned is the object \<open>{ history, historyIndex }\<close> of the source.\<close>

definition addToHistory ::
  "Shape list list \<Rightarrow> int \<Rightarrow> Shape list \<Rightarrow> int \<Rightarrow> Shape list list \<times> int" where
  "addToHistory currentHistory currentIndex newState maxHistorySize =
     (let truncatedHistory = js_slice currentHistory 0 (currentIndex + 1);
          newHistory = truncatedHistory @ [newState];
          finalHistory = (if int (length newHistory) > maxHistorySize
                          then js_slice_from newHistory (- maxHistorySize)
                          else newHistory)
      in (finalHistory, int (length finalHistory) - 1))"

text \<open>Every caller omits the fourth argument, whose default is 50.\<close>

definition addToHistory_default :: "Shape list list \<Rightarrow> int \<Rightarrow> Shape list \<Rightarrow> Shape list list \<times> int" where
  "addToHistory_default currentHistory currentIndex newState =
     addToHistory currentHistory currentIndex newState 50"

definition canUndo :: "int \<Rightarrow> bool" where
  "canUndo hi = (hi > 0)"

definition canRedo :: "int \<Rightarrow> int \<Rightarrow> bool" where
  "canRedo hi historyLength = (hi < historyLength - 1)"

section \<open>The Context reducer (store/contextStore.tsx)\<close>

datatype CanvasActionType =
    ADD_SHAPE "Point list" string DrawingTool
  | CHANGE_COLOR string
  | CHANGE_TOOL DrawingTool
  | START_DRAWING Point
  | CONTINUE_DRAWING Point
  | FINISH_DRAWING
  | UNDO
  | REDO
  | CLEAR
  | RESET

fun canvasReducer :: "fresh \<Rightarrow> CanvasState \<Rightarrow> CanvasActionType \<Rightarrow> error + CanvasState" where
  "canvasReducer fr state (ADD_SHAPE pts c t) =
     (let newShape = createShape fr pts c t;
          newShapes = shapes state @ [newShape];
          r = addToHistory_default (history state) (historyIndex state) newShapes
      in Inr (state\<lparr>shapes := newShapes, history := fst r, historyIndex := snd r\<rparr>))"
| "canvasReducer fr state (CHANGE_COLOR c) = Inr (state\<lparr>currentColor := c\<rparr>)"
| "canvasReducer fr state (CHANGE_TOOL t) = Inr (state\<lparr>currentTool := t\<rparr>)"
| "canvasReducer fr state (START_DRAWING p) =
     Inr (state\<lparr>isDrawing := True, currentPath := [p]\<rparr>)"
| "canvasReducer fr state (CONTINUE_DRAWING p) =
     (if \<not> isDrawing state then Inr state
      else Inr (state\<lparr>currentPath := currentPath state @ [p]\<rparr>))"
| "canvasReducer fr state FINISH_DRAWING =
     (if \<not> isDrawing state \<or> length (currentPath state) = 0
      then Inr (state\<lparr>isDrawing := False, currentPath := []\<rparr>)
      else
        (let newShape = createShape fr (currentPath state) (currentColor state) (currentTool state);
             newShapes = shapes state @ [newShape];
             r = addToHistory_default (history state) (historyIndex state) newShapes
         in Inr (state\<lparr>shapes := newShapes, history := fst r, historyIndex := snd r,
                        isDrawing := False, currentPath := []\<rparr>)))"
| "canvasReducer fr state UNDO =
     (if \<not> canUndo (historyIndex state) then Inr state
      else
        (let newHistoryIndex = historyIndex state - 1
         in case spread (js_index (history state) newHistoryIndex) of
              Inl e \<Rightarrow> Inl e
            | Inr copy \<Rightarrow>
                Inr (state\<lparr>historyIndex := newHistoryIndex, shapes := copy,
                           isDrawing := False, currentPath := []\<rparr>)))"
| "canvasReducer fr state REDO =
     (if \<not> canRedo (historyIndex state) (int (length (history state))) then Inr state
      else
        (let newHistoryIndex = historyIndex state + 1
         in case spread (js_index (history state) newHistoryIndex) of
              Inl e \<Rightarrow> Inl e
            | Inr copy \<Rightarrow>
                Inr (state\<lparr>historyIndex := newHistoryIndex, shapes := copy,
                           isDrawing := False, currentPath := []\<rparr>)))"
| "canvasReducer fr state CLEAR =
     (let newShapes = [];
          r = addToHistory_default (history state) (historyIndex state) newShapes
      in Inr (state\<lparr>shapes := newShapes, history := fst r, historyIndex := snd r,
                     isDrawing := False, currentPath := []\<rparr>))"
| "canvasReducer fr state RESET = Inr initialCanvasState"

text \<open>
  The commands of the interface \<open>CanvasActions\<close> (store/types.ts), which the three
  backends implement.
\<close>

datatype Command =
    AddShape "Point list" string DrawingTool
  | ChangeColor string
  | ChangeTool DrawingTool
  | StartDrawing Point
  | ContinueDrawing Point
  | FinishDrawing
  | Undo
  | Redo
  | Clear
  | Reset

text \<open>The action creators of \<open>CanvasProvider\<close>: each command dispatches one action.\<close>

fun contextAction :: "Command \<Rightarrow> CanvasActionType" where
  "contextAction (AddShape pts c t) = ADD_SHAPE pts c t"
| "contextAction (ChangeColor c) = CHANGE_COLOR c"
| "contextAction (ChangeTool t) = CHANGE_TOOL t"
| "contextAction (StartDrawing p) = START_DRAWING p"
| "contextAction (ContinueDrawing p) = CONTINUE_DRAWING p"
| "contextAction FinishDrawing = FINISH_DRAWING"
| "contextAction Undo = UNDO"
| "contextAction Redo = REDO"
| "contextAction Clear = CLEAR"
| "contextAction Reset = RESET"

definition contextStore :: "fresh \<Rightarrow> CanvasState \<Rightarrow> Command \<Rightarrow> error + CanvasState" where
  "contextStore fr state cmd = canvasReducer fr state (contextAction cmd)"

section \<open>The Redux Toolkit slice (store/reduxStore.ts)\<close>

text \<open>
  The case reducers mutate an Immer draft. Each assignment of the source is one record
  update here, in the source's order; \<open>s1\<close>, \<open>s2\<close>, ... are the successive contents of
  the draft. An exception thrown inside a case reducer discards the draft.
\<close>

fun canvasSlice :: "fresh \<Rightarrow> CanvasState \<Rightarrow> Command \<Rightarrow> error + CanvasState" where
  "canvasSlice fr state (AddShape pts c t) =
     (let newShape = createShape fr pts c t;
          s1 = state\<lparr>shapes := shapes state @ [newShape]\<rparr>;
          r = addToHistory_default (history s1) (historyIndex s1) (shapes s1);
          s2 = s1\<lparr>history := fst r\<rparr>;
          s3 = s2\<lparr>historyIndex := snd r\<rparr>
      in Inr s3)"
| "canvasSlice fr state (ChangeColor c) = Inr (state\<lparr>currentColor := c\<rparr>)"
| "canvasSlice fr state (ChangeTool t) = Inr (state\<lparr>currentTool := t\<rparr>)"
| "canvasSlice fr state (StartDrawing p) =
     (let s1 = state\<lparr>isDrawing := True\<rparr>;
          s2 = s1\<lparr>currentPath := [p]\<rparr>
      in Inr s2)"
| "canvasSlice fr state (ContinueDrawing p) =
     (if isDrawing state then Inr (state\<lparr>currentPath := currentPath state @ [p]\<rparr>)
      else Inr state)"
| "canvasSlice fr state FinishDrawing =
     (if isDrawing state \<and> length (currentPath state) > 0 then
        (let newShape = createShape fr (currentPath state) (currentColor state) (currentTool state);
             s1 = state\<lparr>shapes := shapes state @ [newShape]\<rparr>;
             s2 = s1\<lparr>isDrawing := False\<rparr>;
             s3 = s2\<lparr>currentPath := []\<rparr>;
             r = addToHistory_default (history s3) (historyIndex s3) (shapes s3);
             s4 = s3\<lparr>history := fst r\<rparr>;
             s5 = s4\<lparr>historyIndex := snd r\<rparr>
         in Inr s5)
      else
        (let s1 = state\<lparr>isDrawing := False\<rparr>;
             s2 = s1\<lparr>currentPath := []\<rparr>
         in Inr s2))"
| "canvasSlice fr state Undo =
     (if canUndo (historyIndex state) then
        (let s1 = state\<lparr>historyIndex := historyIndex state - 1\<rparr>
         in case spread (js_index (history s1) (historyIndex s1)) of
              Inl e \<Rightarrow> Inl e
            | Inr copy \<Rightarrow>
                (let s2 = s1\<lparr>shapes := copy\<rparr>;
                     s3 = s2\<lparr>isDrawing := False\<rparr>;
                     s4 = s3\<lparr>currentPath := []\<rparr>
                 in Inr s4))
      else Inr state)"
| "canvasSlice fr state Redo =
     (if canRedo (historyIndex state) (int (length (history state))) then
        (let s1 = state\<lparr>historyIndex := historyIndex state + 1\<rparr>
         in case spread (js_index (history s1) (historyIndex s1)) of
              Inl e \<Rightarrow> Inl e
            | Inr copy \<Rightarrow>
                (let s2 = s1\<lparr>shapes := copy\<rparr>;
                     s3 = s2\<lparr>isDrawing := False\<rparr>;
                     s4 = s3\<lparr>currentPath := []\<rparr>
                 in Inr s4))
      else Inr state)"
| "canvasSlice fr state Clear =
     (let s1 = state\<lparr>shapes := []\<rparr>;
          r = addToHistory_default (history s1) (historyIndex s1) (shapes s1);
          s2 = s1\<lparr>history := fst r\<rparr>;
          s3 = s2\<lparr>historyIndex := snd r\<rparr>;
          s4 = s3\<lparr>isDrawing := False\<rparr>;
          s5 = s4\<lparr>currentPath := []\<rparr>
      in Inr s5)"
| "canvasSlice fr state Reset = Inr initialCanvasState"

section \<open>The Zustand store (store/zustandStore.ts)\<close>

text \<open>
  Every action calls \<open>set\<close> with a recipe over an Immer draft, modelled as for the
  slice. \<open>finishDrawing\<close> first reads the store with \<open>get()\<close> and builds \<open>shapeData\<close>
  from that snapshot; \<open>reset\<close> returns a copy of the initial state, which \<open>set\<close>
  merges over all seven fields.
\<close>

fun useZustandStore :: "fresh \<Rightarrow> CanvasState \<Rightarrow> Command \<Rightarrow> error + CanvasState" where
  "useZustandStore fr state (AddShape pts c t) =
     (let newShape = createShape fr pts c t;
          s1 = state\<lparr>shapes := shapes state @ [newShape]\<rparr>;
          r = addToHistory_default (history s1) (historyIndex s1) (shapes s1);
          s2 = s1\<lparr>history := fst r\<rparr>;
          s3 = s2\<lparr>historyIndex := snd r\<rparr>
      in Inr s3)"
| "useZustandStore fr state (ChangeColor c) = Inr (state\<lparr>currentColor := c\<rparr>)"
| "useZustandStore fr state (ChangeTool t) = Inr (state\<lparr>currentTool := t\<rparr>)"
| "useZustandStore fr state (StartDrawing p) =
     (let s1 = state\<lparr>isDrawing := True\<rparr>;
          s2 = s1\<lparr>currentPath := [p]\<rparr>
      in Inr s2)"
| "useZustandStore fr state (ContinueDrawing p) =
     (if isDrawing state then Inr (state\<lparr>currentPath := currentPath state @ [p]\<rparr>)
      else Inr state)"
| "useZustandStore fr state FinishDrawing =
     (let got = state in
      if isDrawing got \<and> length (currentPath got) > 0 then
        (let shapeData = (currentPath got, currentColor got, currentTool got);
             newShape = createShape fr (fst shapeData) (fst (snd shapeData)) (snd (snd shapeData));
             d1 = state\<lparr>shapes := shapes state @ [newShape]\<rparr>;
             d2 = d1\<lparr>isDrawing := False\<rparr>;
             d3 = d2\<lparr>currentPath := []\<rparr>;
             r = addToHistory_default (history d3) (historyIndex d3) (shapes d3);
             d4 = d3\<lparr>history := fst r\<rparr>;
             d5 = d4\<lparr>historyIndex := snd r\<rparr>
         in Inr d5)
      else
        (let s1 = state\<lparr>isDrawing := False\<rparr>;
             s2 = s1\<lparr>currentPath := []\<rparr>
         in Inr s2))"
| "useZustandStore fr state Undo =
     (if canUndo (historyIndex state) then
        (let s1 = state\<lparr>historyIndex := historyIndex state - 1\<rparr>
         in case spread (js_index (history s1) (historyIndex s1)) of
              Inl e \<Rightarrow> Inl e
            | Inr copy \<Rightarrow>
                (let s2 = s1\<lparr>shapes := copy\<rparr>;
                     s3 = s2\<lparr>isDrawing := False\<rparr>;
                     s4 = s3\<lparr>currentPath := []\<rparr>
                 in Inr s4))
      else Inr state)"
| "useZustandStore fr state Redo =
     (if canRedo (historyIndex state) (int (length (history state))) then
        (let s1 = state\<lparr>historyIndex := historyIndex state + 1\<rparr>
         in case spread (js_index (history s1) (historyIndex s1)) of
              Inl e \<Rightarrow> Inl e
            | Inr copy \<Rightarrow>
                (let s2 = s1\<lparr>shapes := copy\<rparr>;
                     s3 = s2\<lparr>isDrawing := False\<rparr>;
                     s4 = s3\<lparr>currentPath := []\<rparr>
                 in Inr s4))
      else Inr state)"
| "useZustandStore fr state Clear =
     (let s1 = state\<lparr>shapes := []\<rparr>;
          r = addToHistory_default (history s1) (historyIndex s1) (shapes s1);
          s2 = s1\<lparr>history := fst r\<rparr>;
          s3 = s2\<lparr>historyIndex := snd r\<rparr>;
          s4 = s3\<lparr>isDrawing := False\<rparr>;
          s5 = s4\<lparr>currentPath := []\<rparr>
      in Inr s5)"
| "useZustandStore fr state Reset = Inr initialCanvasState"

section \<open>Command sequences\<close>

text \<open>
  Dispatching a sequence of commands to one backend. Each command comes with the id and
  timestamp that \<open>createShape\<close> would obtain during it. An exception ends the run.
\<close>

fun run ::
  "(fresh \<Rightarrow> CanvasState \<Rightarrow> Command \<Rightarrow> error + CanvasState) \<Rightarrow> CanvasState \<Rightarrow>
   (fresh \<times> Command) list \<Rightarrow> error + CanvasState" where
  "run store state [] = Inr state"
| "run store state (fc # rest) =
     (case store (fst fc) state (snd fc) of
        Inl e \<Rightarrow> Inl e
      | Inr state' \<Rightarrow> run store state' rest)"

section \<open>The store manager (components/StoreManager.tsx, hooks/useCanvasStoreHooks.ts)\<close>

datatype StoreType = Zustand | Redux | Context

text \<open>
  \<open>currentStore\<close> is the React state of \<open>StoreManager\<close>. The Zustand and Redux stores
  are module-level singletons, each holding its own \<open>CanvasState\<close>. The state of the
  Context backend lives in \<open>CanvasProvider\<close>, which creates it with
  \<open>useReducer(canvasReducer, initialCanvasState)\<close> whenever it is mounted.
\<close>

record StoreManager =
  currentStore :: StoreType
  zustandState :: CanvasState
  reduxState :: CanvasState
  contextState :: CanvasState

text \<open>
  The registry of hooks/useCanvasStoreHooks.ts: the transition function behind the
  adapter of each store type.
\<close>

fun STORE_ADAPTERS :: "StoreType \<Rightarrow> fresh \<Rightarrow> CanvasState \<Rightarrow> Command \<Rightarrow> error + CanvasState" where
  "STORE_ADAPTERS Zustand = useZustandStore"
| "STORE_ADAPTERS Redux = canvasSlice"
| "STORE_ADAPTERS Context = contextStore"

text \<open>The page starts with \<open>defaultStore = 'zustand'\<close> and untouched stores.\<close>

definition initialStoreManager :: StoreManager where
  "initialStoreManager =
     \<lparr>currentStore = Zustand, zustandState = initialCanvasState,
      reduxState = initialCanvasState, contextState = initialCanvasState\<rparr>"

text \<open>
  \<open>handleStoreChange\<close> returns early for the active store and otherwise only calls
  \<open>setCurrentStore\<close>. On the next render \<open>UniversalProvider\<close> picks the provider of the
  new store type; when that is \<open>ContextProviderWrapper\<close>, a new \<open>CanvasProvider\<close> is
  mounted, with the initial state. Nothing is copied between the stores.
\<close>

definition handleStoreChange :: "StoreType \<Rightarrow> StoreManager \<Rightarrow> StoreManager" where
  "handleStoreChange newStoreType m =
     (if newStoreType = currentStore m then m
      else m\<lparr>currentStore := newStoreType,
             contextState := (if newStoreType = Context then initialCanvasState
                              else contextState m)\<rparr>)"

text \<open>\<open>useCanvasStore\<close> selects the adapter of the active store type: its state ...\<close>

definition useCanvasStore :: "StoreManager \<Rightarrow> CanvasState" where
  "useCanvasStore m =
     (case currentStore m of
        Zustand \<Rightarrow> zustandState m
      | Redux \<Rightarrow> reduxState m
      | Context \<Rightarrow> contextState m)"

text \<open>... and its actions.\<close>

definition dispatch :: "fresh \<Rightarrow> StoreManager \<Rightarrow> Command \<Rightarrow> error + StoreManager" where
  "dispatch fr m cmd =
     (case currentStore m of
        Zustand \<Rightarrow> map_sum id (\<lambda>s. m\<lparr>zustandState := s\<rparr>) (useZustandStore fr (zustandState m) cmd)
      | Redux \<Rightarrow> map_sum id (\<lambda>s. m\<lparr>reduxState := s\<rparr>) (canvasSlice fr (reduxState m) cmd)
      | Context \<Rightarrow> map_sum id (\<lambda>s. m\<lparr>contextState := s\<rparr>) (contextStore fr (contextState m) cmd))"

text \<open>Dispatching a sequence of commands through the universal interface.\<close>

fun dispatchAll :: "StoreManager \<Rightarrow> (fresh \<times> Command) list \<Rightarrow> error + StoreManager" where
  "dispatchAll m [] = Inr m"
| "dispatchAll m (fc # rest) =
     (case dispatch (fst fc) m (snd fc) of
        Inl e \<Rightarrow> Inl e
      | Inr m' \<Rightarrow> dispatchAll m' rest)"

section \<open>The commit contract of the specification\<close>

text \<open>
  The specification describes the history engine in words: truncate the history to the
  entries \<open>0..cursor\<close> inclusive, append the new shape set, and, if the result is longer
  than \<open>maxSize\<close>, drop entries from the front until its length is \<open>maxSize\<close>; the new
  cursor is the last index. \<open>commit_spec\<close> is that description, to be compared with
  \<open>addToHistory\<close>.
\<close>

fun dropFront_spec :: "'a list \<Rightarrow> int \<Rightarrow> 'a list" where
  "dropFront_spec [] maxSize = []"
| "dropFront_spec (e # es) maxSize =
     (if int (length (e # es)) > maxSize then dropFront_spec es maxSize else e # es)"

definition commit_spec :: "'a list list \<Rightarrow> int \<Rightarrow> 'a list \<Rightarrow> int \<Rightarrow> 'a list list \<times> int" where
  "commit_spec hist cursor newShapeSet maxSize =
     (let truncated = take (nat cursor + 1) hist;
          newHistory = dropFront_spec (truncated @ [newShapeSet]) maxSize
      in (newHistory, int (length newHistory) - 1))"

section \<open>The invariant of the state machine\<close>

text \<open>
  The cursor is a position of the history, the history holds at most 50 entries, the entry
  under the cursor is the current shape list, and a path is in progress only while
  drawing.
\<close>

definition wellFormed :: "CanvasState \<Rightarrow> bool" where
  "wellFormed s =
     (0 \<le> historyIndex s \<and> historyIndex s < int (length (history s)) \<and>
      length (history s) \<le> 50 \<and>
      js_index (history s) (historyIndex s) = Some (shapes s) \<and>
      (isDrawing s \<or> currentPath s = []))"

section \<open>Auxiliary facts\<close>

subsection \<open>The three backends compute the same transition\<close>

lemma redux_eq_context: "canvasSlice fr s c = contextStore fr s c"
  by (cases c) (auto simp: contextStore_def Let_def split: sum.splits)

lemma zustand_eq_context: "useZustandStore fr s c = contextStore fr s c"
  by (cases c) (auto simp: contextStore_def Let_def split: sum.splits)

lemma adapters_eq: "STORE_ADAPTERS b = contextStore"
  by (cases b) (simp_all add: fun_eq_iff redux_eq_context zustand_eq_context)

subsection \<open>Slices and the history engine\<close>

lemma js_slice_prefix: "0 \<le> c \<Longrightarrow> js_slice xs 0 (c + 1) = take (nat c + 1) xs"
  by (auto simp: js_slice_def Let_def min_def nat_add_distrib)

lemma js_slice_from_suffix:
  "1 \<le> m \<Longrightarrow> m < int (length xs) \<Longrightarrow> js_slice_from xs (- m) = drop (length xs - nat m) xs"
  by (auto simp: js_slice_from_def js_slice_def Let_def max_def nat_diff_distrib)

lemma dropFront_spec_drop:
  "0 \<le> m \<Longrightarrow> dropFront_spec xs m = drop (length xs - nat m) xs"
proof (induction xs)
  case Nil
  then show ?case by simp
next
  case (Cons a xs)
  show ?case
  proof (cases "int (length (a # xs)) > m")
    case True
    then have "length (a # xs) - nat m = Suc (length xs - nat m)"
      using Cons.prems by (simp add: Suc_diff_le nat_le_iff)
    with True Cons show ?thesis by simp
  next
    case False
    then have "length (a # xs) - nat m = 0" using Cons.prems by simp
    with False show ?thesis by simp
  qed
qed

lemma addToHistory_eq:
  assumes "0 \<le> c" "1 \<le> m"
  shows "fst (addToHistory h c n m) =
           drop (length (take (nat c + 1) h @ [n]) - nat m) (take (nat c + 1) h @ [n])"
    and "snd (addToHistory h c n m) = int (length (fst (addToHistory h c n m))) - 1"
  using assms
  by (auto simp: addToHistory_def Let_def js_slice_prefix js_slice_from_suffix)

lemma addToHistory_cursor:
  "snd (addToHistory h c n m) = int (length (fst (addToHistory h c n m))) - 1"
  by (simp add: addToHistory_def Let_def)

lemma drop_tail_props:
  assumes "xs \<noteq> []" "0 < k"
  shows "drop (length xs - k) xs \<noteq> []"
    and "length (drop (length xs - k) xs) \<le> k"
    and "last (drop (length xs - k) xs) = last xs"
proof -
  from assms have lt: "length xs - k < length xs" by (cases xs) auto
  then show "drop (length xs - k) xs \<noteq> []" by simp
  show "length (drop (length xs - k) xs) \<le> k" by simp
  from lt show "last (drop (length xs - k) xs) = last xs" by (rule last_drop)
qed

lemma addToHistory_default_props:
  assumes "0 \<le> c"
  shows "fst (addToHistory_default h c n) \<noteq> []"
    and "length (fst (addToHistory_default h c n)) \<le> 50"
    and "last (fst (addToHistory_default h c n)) = n"
    and "snd (addToHistory_default h c n) = int (length (fst (addToHistory_default h c n))) - 1"
proof -
  define a where "a = take (nat c + 1) h @ [n]"
  have ne: "a \<noteq> []" and la: "last a = n" by (simp_all add: a_def)
  have f: "fst (addToHistory_default h c n) = drop (length a - 50) a"
    using assms addToHistory_eq(1)[of c 50 h n] by (simp add: addToHistory_default_def a_def)
  show "fst (addToHistory_default h c n) \<noteq> []"
    unfolding f using drop_tail_props(1)[OF ne, of 50] by simp
  show "length (fst (addToHistory_default h c n)) \<le> 50"
    unfolding f using drop_tail_props(2)[OF ne, of 50] by simp
  show "last (fst (addToHistory_default h c n)) = n"
    unfolding f using drop_tail_props(3)[OF ne, of 50] la by simp
  show "snd (addToHistory_default h c n) = int (length (fst (addToHistory_default h c n))) - 1"
    using assms addToHistory_eq(2)[of c 50 h n] by (simp add: addToHistory_default_def)
qed

lemma js_index_last: "xs \<noteq> [] \<Longrightarrow> js_index xs (int (length xs) - 1) = Some (last xs)"
  by (cases xs rule: rev_cases) (auto simp: js_index_def nth_append)


lemma commit_wellFormed:
  assumes "0 \<le> historyIndex s" and "d \<or> p = []"
  shows "wellFormed (s\<lparr>shapes := n, history := fst (addToHistory_default (history s) (historyIndex s) n),
                        historyIndex := snd (addToHistory_default (history s) (historyIndex s) n),
                        isDrawing := d, currentPath := p\<rparr>)"
proof -
  define r where "r = addToHistory_default (history s) (historyIndex s) n"
  note props = addToHistory_default_props[OF assms(1), of "history s" n, folded r_def]
  have "js_index (fst r) (snd r) = Some n"
    using js_index_last[OF props(1)] props(3,4) by simp
  moreover have "0 \<le> snd r" "snd r < int (length (fst r))"
    using props(1,4) by (simp_all add: Suc_leI)
  ultimately show ?thesis
    using props(2) assms(2) by (simp add: wellFormed_def r_def)
qed

lemma contextStore_wellFormed:
  assumes "wellFormed s"
  shows "\<exists>s'. contextStore fr s c = Inr s' \<and> wellFormed s'"
proof (cases c)
  case (AddShape pts col t)
  have "0 \<le> historyIndex s" "isDrawing s \<or> currentPath s = []"
    using assms by (simp_all add: wellFormed_def)
  from commit_wellFormed[OF this, of "shapes s @ [createShape fr pts col t]"]
  show ?thesis using AddShape by (simp add: contextStore_def Let_def)
next
  case (ChangeColor col)
  then show ?thesis using assms by (simp add: contextStore_def wellFormed_def)
next
  case (ChangeTool t)
  then show ?thesis using assms by (simp add: contextStore_def wellFormed_def)
next
  case (StartDrawing p)
  then show ?thesis using assms by (simp add: contextStore_def wellFormed_def)
next
  case (ContinueDrawing p)
  then show ?thesis using assms by (auto simp: contextStore_def wellFormed_def)
next
  case FinishDrawing
  have "0 \<le> historyIndex s" "False \<or> ([]::Point list) = []"
    using assms by (simp_all add: wellFormed_def)
  from commit_wellFormed[OF this,
      of "shapes s @ [createShape fr (currentPath s) (currentColor s) (currentTool s)]"]
  show ?thesis using FinishDrawing assms
    by (auto simp: contextStore_def Let_def wellFormed_def)
next
  case Undo
  then show ?thesis using assms
    by (auto simp: contextStore_def Let_def wellFormed_def canUndo_def spread_def js_index_def)
next
  case Redo
  then show ?thesis using assms
    by (auto simp: contextStore_def Let_def wellFormed_def canRedo_def spread_def js_index_def)
next
  case Clear
  have "0 \<le> historyIndex s" "False \<or> ([]::Point list) = []"
    using assms by (simp_all add: wellFormed_def)
  from commit_wellFormed[OF this, of "[]"]
  show ?thesis using Clear by (simp add: contextStore_def Let_def)
next
  case Reset
  then show ?thesis
    by (simp add: contextStore_def wellFormed_def initialCanvasState_def js_index_def)
qed

lemma wellFormed_initial: "wellFormed initialCanvasState"
  by (simp add: wellFormed_def initialCanvasState_def js_index_def)

lemma run_wellFormed:
  "wellFormed s \<Longrightarrow> \<exists>s'. run contextStore s cmds = Inr s' \<and> wellFormed s'"
proof (induction cmds arbitrary: s)
  case Nil
  then show ?case by simp
next
  case (Cons fc cmds)
  from contextStore_wellFormed[OF Cons.prems, of "fst fc" "snd fc"]
  obtain s1 where s1: "contextStore (fst fc) s (snd fc) = Inr s1" "wellFormed s1" by blast
  from Cons.IH[OF s1(2)] s1(1) show ?case by simp
qed

lemma sixty_clears:
  "run contextStore initialCanvasState (replicate 60 (fr, Clear)) =
     Inr (initialCanvasState\<lparr>history := replicate 50 [], historyIndex := 49\<rparr>)"
  by (simp add: numeral_eq_Suc contextStore_def initialCanvasState_def Let_def
      addToHistory_default_def addToHistory_def js_slice_def js_slice_from_def)

subsection \<open>Undo and redo\<close>

lemma undo_at_start: "historyIndex s = 0 \<Longrightarrow> contextStore fr s Undo = Inr s"
  by (simp add: contextStore_def canUndo_def)

lemma redo_at_end:
  "historyIndex s = int (length (history s)) - 1 \<Longrightarrow> contextStore fr s Redo = Inr s"
  by (simp add: contextStore_def canRedo_def)

lemma undo_then_redo:
  assumes "wellFormed s" "0 < historyIndex s"
  shows "run contextStore s [(f1, Undo), (f2, Redo)] = Inr (s\<lparr>isDrawing := False, currentPath := []\<rparr>)"
  using assms
  by (auto simp: wellFormed_def contextStore_def canUndo_def canRedo_def js_index_def spread_def Let_def
      split: if_splits)

lemma redo_then_undo:
  assumes "wellFormed s" "historyIndex s < int (length (history s)) - 1"
  shows "run contextStore s [(f1, Redo), (f2, Undo)] = Inr (s\<lparr>isDrawing := False, currentPath := []\<rparr>)"
  using assms
  by (auto simp: wellFormed_def contextStore_def canUndo_def canRedo_def js_index_def spread_def Let_def
      split: if_splits)

section \<open>Cross-backend equivalence\<close>

text \<open>
  Claim C3. Replaying one sequence of commands, with the same ids and timestamps handed to
  \<open>createShape\<close>, against the Zustand store, the Redux slice and the Context reducer
  from the same seed state gives the same outcome in all three: the same exception, or
  final states equal in every field.
\<close>

theorem cross_backend_equivalence:
  "run useZustandStore seed cmds = run canvasSlice seed cmds \<and>
   run canvasSlice seed cmds = run contextStore seed cmds"
proof -
  have "useZustandStore = contextStore" "canvasSlice = contextStore"
    by (simp_all add: fun_eq_iff zustand_eq_context redux_eq_context)
  then show ?thesis by simp
qed

section \<open>Invariants of the reachable states\<close>

text \<open>
  Claim C2. Whatever commands are dispatched from the initial state, to whichever
  backend, no exception is raised and in the state reached the history is non-empty, the
  cursor satisfies \<open>0 \<le> historyIndex < history.length\<close>, and the entry under the cursor
  equals \<open>shapes\<close>.
\<close>

theorem history_invariant:
  "\<exists>s. run (STORE_ADAPTERS b) initialCanvasState cmds = Inr s \<and>
        history s \<noteq> [] \<and> 0 \<le> historyIndex s \<and>
        historyIndex s < int (length (history s)) \<and>
        history s ! nat (historyIndex s) = shapes s"
proof -
  from run_wellFormed[OF wellFormed_initial, of cmds]
  obtain s where s: "run contextStore initialCanvasState cmds = Inr s" "wellFormed s" by blast
  from s(2) have "history s \<noteq> []" "0 \<le> historyIndex s"
    "historyIndex s < int (length (history s))" "history s ! nat (historyIndex s) = shapes s"
    by (auto simp: wellFormed_def js_index_def)
  with s(1) show ?thesis by (simp add: adapters_eq)
qed

text \<open>
  Claim C9. In every state reached from the initial state, if \<open>isDrawing\<close> is false then
  \<open>currentPath\<close> is empty.
\<close>

theorem currentPath_coupling:
  "\<exists>s. run (STORE_ADAPTERS b) initialCanvasState cmds = Inr s \<and>
        (\<not> isDrawing s \<longrightarrow> currentPath s = [])"
proof -
  from run_wellFormed[OF wellFormed_initial, of cmds]
  obtain s where s: "run contextStore initialCanvasState cmds = Inr s" "wellFormed s" by blast
  from s(2) have "\<not> isDrawing s \<longrightarrow> currentPath s = []"
    by (auto simp: wellFormed_def)
  with s(1) show ?thesis by (simp add: adapters_eq)
qed

theorem currentPath_coupling_witness:
  "\<exists>s. run (STORE_ADAPTERS Redux) initialCanvasState
          [((''shape_1'', 1), StartDrawing \<lparr>x = 10, y = 10\<rparr>), ((''shape_2'', 2), FinishDrawing)] = Inr s \<and>
        \<not> isDrawing s \<and> currentPath s = []"
  using currentPath_coupling[of Redux
      "[((''shape_1'', 1), StartDrawing \<lparr>x = 10, y = 10\<rparr>), ((''shape_2'', 2), FinishDrawing)]"]
  by (auto simp: initialCanvasState_def Let_def)

text \<open>
  Claim C5. Whatever commands are dispatched from the initial state, the history never
  holds more than 50 entries; and 60 consecutive \<open>clear()\<close> from the initial state leave
  a history of exactly 50 entries with the cursor at 49.
\<close>

theorem history_cap:
  "(\<exists>s. run (STORE_ADAPTERS b) initialCanvasState cmds = Inr s \<and> length (history s) \<le> 50) \<and>
   (\<exists>s. run (STORE_ADAPTERS b) initialCanvasState (replicate 60 (fr, Clear)) = Inr s \<and>
         length (history s) = 50 \<and> historyIndex s = 49)"
proof -
  from run_wellFormed[OF wellFormed_initial, of cmds]
  obtain s where s: "run contextStore initialCanvasState cmds = Inr s" "wellFormed s" by blast
  from s(2) have "length (history s) \<le> 50" by (simp add: wellFormed_def)
  with s(1) have "\<exists>s. run (STORE_ADAPTERS b) initialCanvasState cmds = Inr s \<and> length (history s) \<le> 50"
    by (simp add: adapters_eq)
  moreover have "\<exists>s. run (STORE_ADAPTERS b) initialCanvasState (replicate 60 (fr, Clear)) = Inr s \<and>
         length (history s) = 50 \<and> historyIndex s = 49"
    unfolding adapters_eq sixty_clears by simp
  ultimately show ?thesis by blast
qed

section \<open>Undo and redo\<close>

text \<open>
  Claim C7. In any state whose cursor is 0, \<open>undo()\<close>, called any number of times, returns
  the state unchanged and raises nothing; likewise \<open>redo()\<close> in any state whose cursor is
  the last index of the history.
\<close>

theorem boundary_undo_redo_noop:
  "(historyIndex s = 0 \<longrightarrow> run (STORE_ADAPTERS b) s (map (\<lambda>fr. (fr, Undo)) frs) = Inr s) \<and>
   (historyIndex s = int (length (history s)) - 1 \<longrightarrow>
      run (STORE_ADAPTERS b) s (map (\<lambda>fr. (fr, Redo)) frs) = Inr s)"
  unfolding adapters_eq
  by (induction frs) (simp_all add: undo_at_start redo_at_end)

theorem boundary_undo_redo_noop_witness:
  "historyIndex initialCanvasState = 0 \<and>
   historyIndex initialCanvasState = int (length (history initialCanvasState)) - 1 \<and>
   run (STORE_ADAPTERS Zustand) initialCanvasState
     [((''shape_1'', 1), Undo), ((''shape_2'', 2), Undo)] = Inr initialCanvasState \<and>
   run (STORE_ADAPTERS Zustand) initialCanvasState
     [((''shape_1'', 1), Redo), ((''shape_2'', 2), Redo)] = Inr initialCanvasState"
  using boundary_undo_redo_noop[of initialCanvasState Zustand "[(''shape_1'', 1), (''shape_2'', 2)]"]
  by (simp add: initialCanvasState_def)

text \<open>
  Claim C10. From a state \<open>s\<close> reached from the initial state with \<open>historyIndex > 0\<close>,
  \<open>undo()\<close> followed by \<open>redo()\<close> gives \<open>s\<close> again, up to \<open>isDrawing = false\<close> and
  \<open>currentPath = []\<close>; so \<open>shapes\<close>, \<open>history\<close> and \<open>historyIndex\<close> are those of \<open>s\<close>.
  Symmetrically for \<open>redo()\<close> followed by \<open>undo()\<close> when
  \<open>historyIndex < history.length - 1\<close>.
\<close>

theorem undo_redo_roundtrip:
  assumes "run (STORE_ADAPTERS b) initialCanvasState cmds = Inr s"
  shows "(0 < historyIndex s \<longrightarrow>
            run (STORE_ADAPTERS b) s [(f1, Undo), (f2, Redo)] =
              Inr (s\<lparr>isDrawing := False, currentPath := []\<rparr>)) \<and>
         (historyIndex s < int (length (history s)) - 1 \<longrightarrow>
            run (STORE_ADAPTERS b) s [(f1, Redo), (f2, Undo)] =
              Inr (s\<lparr>isDrawing := False, currentPath := []\<rparr>))"
proof -
  from run_wellFormed[OF wellFormed_initial, of cmds] assms
  have "wellFormed s" by (auto simp: adapters_eq)
  then show ?thesis
    unfolding adapters_eq using undo_then_redo redo_then_undo by blast
qed

theorem undo_redo_roundtrip_witness:
  "run (STORE_ADAPTERS Context) initialCanvasState
     [((''shape_1'', 1), AddShape [\<lparr>x = 0, y = 0\<rparr>, \<lparr>x = 5, y = 5\<rparr>] ''#FF0000'' rectangle)] =
     Inr (initialCanvasState
           \<lparr>shapes := [createShape (''shape_1'', 1) [\<lparr>x = 0, y = 0\<rparr>, \<lparr>x = 5, y = 5\<rparr>] ''#FF0000'' rectangle],
            history := [[], [createShape (''shape_1'', 1) [\<lparr>x = 0, y = 0\<rparr>, \<lparr>x = 5, y = 5\<rparr>] ''#FF0000'' rectangle]],
            historyIndex := 1\<rparr>) \<and>
   run (STORE_ADAPTERS Context)
     (initialCanvasState
           \<lparr>shapes := [createShape (''shape_1'', 1) [\<lparr>x = 0, y = 0\<rparr>, \<lparr>x = 5, y = 5\<rparr>] ''#FF0000'' rectangle],
            history := [[], [createShape (''shape_1'', 1) [\<lparr>x = 0, y = 0\<rparr>, \<lparr>x = 5, y = 5\<rparr>] ''#FF0000'' rectangle]],
            historyIndex := 1\<rparr>)
     [((''shape_2'', 2), Undo), ((''shape_3'', 3), Redo)] =
     Inr (initialCanvasState
           \<lparr>shapes := [createShape (''shape_1'', 1) [\<lparr>x = 0, y = 0\<rparr>, \<lparr>x = 5, y = 5\<rparr>] ''#FF0000'' rectangle],
            history := [[], [createShape (''shape_1'', 1) [\<lparr>x = 0, y = 0\<rparr>, \<lparr>x = 5, y = 5\<rparr>] ''#FF0000'' rectangle]],
            historyIndex := 1\<rparr>) \<and>
   run (STORE_ADAPTERS Context) initialCanvasState
     [((''shape_1'', 1), Clear), ((''shape_2'', 2), Undo)] =
     Inr (initialCanvasState\<lparr>history := [[], []]\<rparr>) \<and>
   run (STORE_ADAPTERS Context) (initialCanvasState\<lparr>history := [[], []]\<rparr>)
     [((''shape_3'', 3), Redo), ((''shape_4'', 4), Undo)] =
     Inr (initialCanvasState\<lparr>history := [[], []]\<rparr>)"
proof -
  have r1: "run (STORE_ADAPTERS Context) initialCanvasState
     [((''shape_1'', 1), AddShape [\<lparr>x = 0, y = 0\<rparr>, \<lparr>x = 5, y = 5\<rparr>] ''#FF0000'' rectangle)] =
     Inr (initialCanvasState
           \<lparr>shapes := [createShape (''shape_1'', 1) [\<lparr>x = 0, y = 0\<rparr>, \<lparr>x = 5, y = 5\<rparr>] ''#FF0000'' rectangle],
            history := [[], [createShape (''shape_1'', 1) [\<lparr>x = 0, y = 0\<rparr>, \<lparr>x = 5, y = 5\<rparr>] ''#FF0000'' rectangle]],
            historyIndex := 1\<rparr>)"
    by (simp add: contextStore_def initialCanvasState_def Let_def
        addToHistory_default_def addToHistory_def js_slice_def js_slice_from_def)
  have r2: "run (STORE_ADAPTERS Context) initialCanvasState
     [((''shape_1'', 1), Clear), ((''shape_2'', 2), Undo)] =
     Inr (initialCanvasState\<lparr>history := [[], []]\<rparr>)"
    by (simp add: contextStore_def initialCanvasState_def Let_def canUndo_def spread_def js_index_def
        addToHistory_default_def addToHistory_def js_slice_def js_slice_from_def)
  from undo_redo_roundtrip[OF r1, of "(''shape_2'', 2)" "(''shape_3'', 3)"]
       undo_redo_roundtrip[OF r2, of "(''shape_3'', 3)" "(''shape_4'', 4)"] r1 r2
  show ?thesis by (simp add: initialCanvasState_def)
qed

section \<open>Selection commands\<close>

text \<open>
  Claim C8. \<open>changeColor(c)\<close> sets \<open>currentColor\<close> to \<open>c\<close> and \<open>changeTool(t)\<close> sets
  \<open>currentTool\<close> to \<open>t\<close>; neither raises, and neither changes \<open>shapes\<close>, \<open>history\<close>,
  \<open>historyIndex\<close>, \<open>isDrawing\<close> or \<open>currentPath\<close>, so no history entry is created.
\<close>

theorem selection_frame:
  "STORE_ADAPTERS b fr s (ChangeColor c) = Inr (s\<lparr>currentColor := c\<rparr>) \<and>
   STORE_ADAPTERS b fr s (ChangeTool t) = Inr (s\<lparr>currentTool := t\<rparr>) \<and>
   (\<exists>s'. STORE_ADAPTERS b fr s (ChangeColor c) = Inr s' \<and> currentColor s' = c \<and>
      shapes s' = shapes s \<and> history s' = history s \<and> historyIndex s' = historyIndex s \<and>
      isDrawing s' = isDrawing s \<and> currentPath s' = currentPath s) \<and>
   (\<exists>s'. STORE_ADAPTERS b fr s (ChangeTool t) = Inr s' \<and> currentTool s' = t \<and>
      shapes s' = shapes s \<and> history s' = history s \<and> historyIndex s' = historyIndex s \<and>
      isDrawing s' = isDrawing s \<and> currentPath s' = currentPath s)"
  by (simp add: adapters_eq contextStore_def)

section \<open>The history engine\<close>

text \<open>
  Claim C4, as stated, for every \<open>maxSize\<close>: \<open>addToHistory\<close> returns the truncated
  history with the new shape set appended and then cut from the front down to \<open>maxSize\<close>
  entries. With \<open>maxSize = 0\<close> the source evaluates \<open>newHistory.slice(-0)\<close>, which is
  \<open>slice(0)\<close>, the whole array: from the history \<open>[[]]\<close> at cursor 0 it returns two
  entries, where the contract asks for none.
\<close>

theorem addToHistory_unbounded_maxSize_counterexample:
  "(0::int) \<le> 0 \<and> (0::int) < int (length [[]::Shape list]) \<and>
   addToHistory [[]] 0 [] 0 = ([[], []], 1) \<and>
   commit_spec [[]::Shape list] 0 [] 0 = ([], - 1) \<and>
   int (length (fst (addToHistory [[]] 0 [] 0))) > 0 \<and>
   int (length (fst (addToHistory [[]] 0 [] 0))) \<noteq> 0 \<and>
   addToHistory [[]] 0 [] 0 \<noteq> commit_spec [[]] 0 [] 0"
  by (simp add: addToHistory_def commit_spec_def js_slice_def js_slice_from_def Let_def)

text \<open>
  Claim C4, amended: for every history, cursor, new shape set and \<open>maxSize\<close>, the cursor
  returned by \<open>addToHistory\<close> is the length of the returned history minus 1. For a cursor
  inside the history and \<open>maxSize \<ge> 1\<close>, \<open>addToHistory\<close> returns exactly what the commit
  contract describes: the entries \<open>0..cursor\<close> followed by the new shape set, cut from the
  front to \<open>maxSize\<close> entries if it was longer. In particular, for a cursor inside the
  history with \<open>cursor + 2 \<le> maxSize\<close>, the returned history has \<open>cursor + 2\<close> entries.
\<close>

theorem addToHistory_commit:
  "snd (addToHistory hist cursor newShapeSet maxSize) =
     int (length (fst (addToHistory hist cursor newShapeSet maxSize))) - 1 \<and>
   (0 \<le> cursor \<and> cursor < int (length hist) \<and> 1 \<le> maxSize \<longrightarrow>
      addToHistory hist cursor newShapeSet maxSize = commit_spec hist cursor newShapeSet maxSize \<and>
      fst (addToHistory hist cursor newShapeSet maxSize) =
        drop (nat (cursor + 2) - nat maxSize) (take (nat cursor + 1) hist @ [newShapeSet]) \<and>
      int (length (fst (addToHistory hist cursor newShapeSet maxSize))) = min (cursor + 2) maxSize) \<and>
   (0 \<le> cursor \<and> cursor < int (length hist) \<and> cursor + 2 \<le> maxSize \<longrightarrow>
      int (length (fst (addToHistory hist cursor newShapeSet maxSize))) = cursor + 2)"
proof -
  have cur: "snd (addToHistory hist cursor newShapeSet maxSize) =
     int (length (fst (addToHistory hist cursor newShapeSet maxSize))) - 1"
    by (rule addToHistory_cursor)
  have main: "addToHistory hist cursor newShapeSet maxSize = commit_spec hist cursor newShapeSet maxSize \<and>
      fst (addToHistory hist cursor newShapeSet maxSize) =
        drop (nat (cursor + 2) - nat maxSize) (take (nat cursor + 1) hist @ [newShapeSet]) \<and>
      int (length (fst (addToHistory hist cursor newShapeSet maxSize))) = min (cursor + 2) maxSize"
    if h: "0 \<le> cursor" "cursor < int (length hist)" "1 \<le> maxSize"
  proof -
    define a where "a = take (nat cursor + 1) hist @ [newShapeSet]"
    have "length (take (nat cursor + 1) hist) = nat cursor + 1" using h(1,2) by simp
    then have la: "int (length a) = cursor + 2" using h(1) by (simp add: a_def del: length_take)
    then have la': "length a = nat (cursor + 2)" by simp
    have f: "fst (addToHistory hist cursor newShapeSet maxSize) = drop (length a - nat maxSize) a"
      using addToHistory_eq(1)[OF h(1,3), of hist newShapeSet] by (simp add: a_def)
    have c: "commit_spec hist cursor newShapeSet maxSize =
               (drop (length a - nat maxSize) a, int (length (drop (length a - nat maxSize) a)) - 1)"
    proof -
      have "commit_spec hist cursor newShapeSet maxSize =
              (dropFront_spec a maxSize, int (length (dropFront_spec a maxSize)) - 1)"
        by (simp add: commit_spec_def Let_def a_def)
      moreover have "dropFront_spec a maxSize = drop (length a - nat maxSize) a"
        using h(3) by (intro dropFront_spec_drop) simp
      ultimately show ?thesis by (simp only:)
    qed
    have eq: "addToHistory hist cursor newShapeSet maxSize = commit_spec hist cursor newShapeSet maxSize"
      using f cur c by (metis prod.collapse)
    have len: "int (length (drop (length a - nat maxSize) a)) = min (cursor + 2) maxSize"
    proof -
      have "length (drop (length a - nat maxSize) a) = length a - (length a - nat maxSize)"
        by (rule length_drop)
      then show ?thesis using la h(3) by linarith
    qed
    have f': "fst (addToHistory hist cursor newShapeSet maxSize) =
             drop (nat (cursor + 2) - nat maxSize) (take (nat cursor + 1) hist @ [newShapeSet])"
      using f la' by (simp only: a_def)
    have l: "int (length (fst (addToHistory hist cursor newShapeSet maxSize))) = min (cursor + 2) maxSize"
      using len by (simp only: f)
    from eq f' l show ?thesis by blast
  qed
  have part: "int (length (fst (addToHistory hist cursor newShapeSet maxSize))) = cursor + 2"
    if h: "0 \<le> cursor" "cursor < int (length hist)" "cursor + 2 \<le> maxSize"
  proof -
    from h have "1 \<le> maxSize" by linarith
    from main[OF h(1,2) this] h(3) show ?thesis by linarith
  qed
  from cur main part show ?thesis by blast
qed

theorem addToHistory_commit_witness:
  "(0::int) \<le> 1 \<and> (1::int) < int (length [[]::Shape list, [], []]) \<and> (1::int) \<le> 2 \<and>
   addToHistory [[], [], []] 1 [] 2 = ([[], []], 1) \<and>
   commit_spec [[]::Shape list, [], []] 1 [] 2 = ([[], []], 1) \<and>
   (0::int) \<le> 0 \<and> (0::int) < int (length [[]::Shape list, [], []]) \<and> (0::int) + 2 \<le> 50 \<and>
   addToHistory [[], [], []] 0 [createShape (''shape_1'', 1) [] ''#FF0000'' rectangle] 50 =
     ([[], [createShape (''shape_1'', 1) [] ''#FF0000'' rectangle]], 1) \<and>
   int (length (fst (addToHistory [[], [], []] 0
     [createShape (''shape_1'', 1) [] ''#FF0000'' rectangle] 50))) = 0 + 2 \<and>
   snd (addToHistory [[]] 0 [] 0) = int (length (fst (addToHistory [[]] 0 [] 0))) - 1 \<and>
   snd (addToHistory [[]] 0 [] 0) = 1"
  using addToHistory_commit[of "[[], [], []]" 1 "[]" 2]
    addToHistory_commit[of "[[], [], []]" 0 "[createShape (''shape_1'', 1) [] ''#FF0000'' rectangle]" 50]
    addToHistory_commit[of "[[]]" 0 "[]" 0]
  by (simp add: commit_spec_def addToHistory_def js_slice_def js_slice_from_def Let_def)

section \<open>Finishing a stroke\<close>

text \<open>
  Claim C6. In every state, if \<open>isDrawing\<close> is true and \<open>currentPath\<close> is non-empty,
  \<open>finishDrawing()\<close> appends to \<open>shapes\<close> one shape whose points are \<open>currentPath\<close>, whose
  colour is \<open>currentColor\<close> and whose kind is \<open>currentTool\<close>, and commits the new shapes to
  the history; otherwise it changes neither. In every case it raises nothing and leaves
  \<open>isDrawing = false\<close> and \<open>currentPath = []\<close>. In every state of the data model, where a
  path is in progress only while drawing, and so in every state reached from the initial
  state, a shape is persisted if and only if the path was non-empty. Instance: from the
  initial state, \<open>startDrawing({x:10,y:10})\<close>, \<open>continueDrawing({x:20,y:20})\<close>,
  \<open>finishDrawing()\<close> give one shape with those two points, the default colour and kind
  pen, a history of two entries and the cursor at 1.
\<close>

theorem finishDrawing_contract:
  "(isDrawing s \<and> currentPath s \<noteq> [] \<longrightarrow>
      STORE_ADAPTERS b fr s FinishDrawing =
        Inr (s\<lparr>shapes := shapes s @
                 [\<lparr>shape_id = fst fr, points = currentPath s, color = currentColor s,
                   shape_type = currentTool s, timestamp = snd fr\<rparr>],
               history := fst (addToHistory (history s) (historyIndex s)
                  (shapes s @
                   [\<lparr>shape_id = fst fr, points = currentPath s, color = currentColor s,
                     shape_type = currentTool s, timestamp = snd fr\<rparr>]) 50),
               historyIndex := snd (addToHistory (history s) (historyIndex s)
                  (shapes s @
                   [\<lparr>shape_id = fst fr, points = currentPath s, color = currentColor s,
                     shape_type = currentTool s, timestamp = snd fr\<rparr>]) 50),
               isDrawing := False, currentPath := []\<rparr>)) \<and>
   (\<not> (isDrawing s \<and> currentPath s \<noteq> []) \<longrightarrow>
      STORE_ADAPTERS b fr s FinishDrawing = Inr (s\<lparr>isDrawing := False, currentPath := []\<rparr>)) \<and>
   (\<exists>s'. STORE_ADAPTERS b fr s FinishDrawing = Inr s' \<and>
         \<not> isDrawing s' \<and> currentPath s' = [] \<and>
         (run (STORE_ADAPTERS b) initialCanvasState cmds = Inr s \<or> isDrawing s \<or> currentPath s = [] \<longrightarrow>
            (shapes s' \<noteq> shapes s) = (currentPath s \<noteq> []) \<and>
            shapes s' =
              (if currentPath s \<noteq> []
               then shapes s @
                 [\<lparr>shape_id = fst fr, points = currentPath s, color = currentColor s,
                   shape_type = currentTool s, timestamp = snd fr\<rparr>]
               else shapes s))) \<and>
   (\<exists>s'. run (STORE_ADAPTERS b) initialCanvasState
           [(f1, StartDrawing \<lparr>x = 10, y = 10\<rparr>), (f2, ContinueDrawing \<lparr>x = 20, y = 20\<rparr>),
            (fr, FinishDrawing)] = Inr s' \<and>
         shapes s' = [\<lparr>shape_id = fst fr, points = [\<lparr>x = 10, y = 10\<rparr>, \<lparr>x = 20, y = 20\<rparr>],
                       color = ''#000000'', shape_type = pen, timestamp = snd fr\<rparr>] \<and>
         length (shapes s') = 1 \<and>
         points (shapes s' ! 0) = [\<lparr>x = 10, y = 10\<rparr>, \<lparr>x = 20, y = 20\<rparr>] \<and>
         shape_type (shapes s' ! 0) = pen \<and>
         length (history s') = 2 \<and> historyIndex s' = 1)"
proof -
  let ?new = "\<lparr>shape_id = fst fr, points = currentPath s, color = currentColor s,
                   shape_type = currentTool s, timestamp = snd fr\<rparr>"
  have a: "isDrawing s \<and> currentPath s \<noteq> [] \<longrightarrow>
      STORE_ADAPTERS b fr s FinishDrawing =
        Inr (s\<lparr>shapes := shapes s @ [?new],
               history := fst (addToHistory (history s) (historyIndex s) (shapes s @ [?new]) 50),
               historyIndex := snd (addToHistory (history s) (historyIndex s) (shapes s @ [?new]) 50),
               isDrawing := False, currentPath := []\<rparr>)"
    by (simp add: adapters_eq contextStore_def Let_def addToHistory_default_def createShape_def)
  have b: "\<not> (isDrawing s \<and> currentPath s \<noteq> []) \<longrightarrow>
      STORE_ADAPTERS b fr s FinishDrawing = Inr (s\<lparr>isDrawing := False, currentPath := []\<rparr>)"
    by (auto simp: adapters_eq contextStore_def)
  have coupling: "isDrawing s \<or> currentPath s = []"
    if "run (STORE_ADAPTERS b) initialCanvasState cmds = Inr s"
    using run_wellFormed[OF wellFormed_initial, of cmds] that
    by (auto simp: adapters_eq wellFormed_def)
  have c: "\<exists>s'. STORE_ADAPTERS b fr s FinishDrawing = Inr s' \<and>
         \<not> isDrawing s' \<and> currentPath s' = [] \<and>
         (run (STORE_ADAPTERS b) initialCanvasState cmds = Inr s \<or> isDrawing s \<or> currentPath s = [] \<longrightarrow>
            (shapes s' \<noteq> shapes s) = (currentPath s \<noteq> []) \<and>
            shapes s' = (if currentPath s \<noteq> [] then shapes s @ [?new] else shapes s))"
  proof (cases "isDrawing s \<and> currentPath s \<noteq> []")
    case True
    with a show ?thesis by simp
  next
    case False
    with b coupling show ?thesis by auto
  qed
  have d: "\<exists>s'. run (STORE_ADAPTERS b) initialCanvasState
           [(f1, StartDrawing \<lparr>x = 10, y = 10\<rparr>), (f2, ContinueDrawing \<lparr>x = 20, y = 20\<rparr>),
            (fr, FinishDrawing)] = Inr s' \<and>
         shapes s' = [\<lparr>shape_id = fst fr, points = [\<lparr>x = 10, y = 10\<rparr>, \<lparr>x = 20, y = 20\<rparr>],
                       color = ''#000000'', shape_type = pen, timestamp = snd fr\<rparr>] \<and>
         length (shapes s') = 1 \<and>
         points (shapes s' ! 0) = [\<lparr>x = 10, y = 10\<rparr>, \<lparr>x = 20, y = 20\<rparr>] \<and>
         shape_type (shapes s' ! 0) = pen \<and>
         length (history s') = 2 \<and> historyIndex s' = 1"
    by (simp add: adapters_eq contextStore_def initialCanvasState_def Let_def createShape_def
        addToHistory_default_def addToHistory_def js_slice_def js_slice_from_def)
  from a b c d show ?thesis by blast
qed

theorem finishDrawing_contract_witness:
  "run (STORE_ADAPTERS Redux) initialCanvasState
     [((''shape_1'', 1), ChangeColor ''#FF0000''), ((''shape_2'', 2), ChangeTool circle),
      ((''shape_3'', 3), StartDrawing \<lparr>x = 10, y = 10\<rparr>),
      ((''shape_4'', 4), ContinueDrawing \<lparr>x = 20, y = 20\<rparr>)] =
     Inr (initialCanvasState\<lparr>currentColor := ''#FF0000'', currentTool := circle, isDrawing := True,
            currentPath := [\<lparr>x = 10, y = 10\<rparr>, \<lparr>x = 20, y = 20\<rparr>]\<rparr>) \<and>
   isDrawing (initialCanvasState\<lparr>currentColor := ''#FF0000'', currentTool := circle, isDrawing := True,
            currentPath := [\<lparr>x = 10, y = 10\<rparr>, \<lparr>x = 20, y = 20\<rparr>]\<rparr>) \<and>
   currentPath (initialCanvasState\<lparr>currentColor := ''#FF0000'', currentTool := circle, isDrawing := True,
            currentPath := [\<lparr>x = 10, y = 10\<rparr>, \<lparr>x = 20, y = 20\<rparr>]\<rparr>) \<noteq> [] \<and>
   STORE_ADAPTERS Redux (''shape_5'', 5)
     (initialCanvasState\<lparr>currentColor := ''#FF0000'', currentTool := circle, isDrawing := True,
            currentPath := [\<lparr>x = 10, y = 10\<rparr>, \<lparr>x = 20, y = 20\<rparr>]\<rparr>)
     FinishDrawing =
     Inr (initialCanvasState
           \<lparr>currentColor := ''#FF0000'', currentTool := circle,
            shapes := [\<lparr>shape_id = ''shape_5'', points = [\<lparr>x = 10, y = 10\<rparr>, \<lparr>x = 20, y = 20\<rparr>],
                        color = ''#FF0000'', shape_type = circle, timestamp = 5\<rparr>],
            history := [[], [\<lparr>shape_id = ''shape_5'', points = [\<lparr>x = 10, y = 10\<rparr>, \<lparr>x = 20, y = 20\<rparr>],
                        color = ''#FF0000'', shape_type = circle, timestamp = 5\<rparr>]],
            historyIndex := 1\<rparr>) \<and>
   run (STORE_ADAPTERS Redux) initialCanvasState [] = Inr initialCanvasState \<and>
   \<not> (isDrawing initialCanvasState \<and> currentPath initialCanvasState \<noteq> []) \<and>
   STORE_ADAPTERS Redux (''shape_6'', 6) initialCanvasState FinishDrawing = Inr initialCanvasState"
  using finishDrawing_contract[where s =
      "initialCanvasState\<lparr>currentColor := ''#FF0000'', currentTool := circle, isDrawing := True,
            currentPath := [\<lparr>x = 10, y = 10\<rparr>, \<lparr>x = 20, y = 20\<rparr>]\<rparr>"
      and b = Redux and fr = "(''shape_5'', 5)" and cmds =
      "[((''shape_1'', 1), ChangeColor ''#FF0000''), ((''shape_2'', 2), ChangeTool circle),
        ((''shape_3'', 3), StartDrawing \<lparr>x = 10, y = 10\<rparr>),
        ((''shape_4'', 4), ContinueDrawing \<lparr>x = 20, y = 20\<rparr>)]"]
    finishDrawing_contract[where s = initialCanvasState and b = Redux and fr = "(''shape_6'', 6)"
      and cmds = "[]"]
  by (simp add: initialCanvasState_def createShape_def addToHistory_default_def addToHistory_def
      js_slice_def js_slice_from_def Let_def)

section \<open>Switching the backend\<close>

text \<open>
  Claim C1 says that after a switch the target backend shows the shapes of the previous
  one. Evaluated on the code: two shapes are added while Zustand is active; after
  \<open>handleStoreChange\<close> to Redux, or to Context, the active state is the initial state and
  its \<open>shapes\<close> are empty.
\<close>

theorem switch_drops_shapes:
  "(case dispatchAll initialStoreManager
           [((''shape_1'', 1), AddShape [\<lparr>x = 0, y = 0\<rparr>, \<lparr>x = 5, y = 5\<rparr>] ''#FF0000'' rectangle),
            ((''shape_2'', 2), AddShape [\<lparr>x = 1, y = 1\<rparr>, \<lparr>x = 2, y = 2\<rparr>] ''#00FF00'' circle)] of
      Inl e \<Rightarrow> False
    | Inr m \<Rightarrow>
        currentStore m = Zustand \<and>
        shapes (useCanvasStore m) =
          [createShape (''shape_1'', 1) [\<lparr>x = 0, y = 0\<rparr>, \<lparr>x = 5, y = 5\<rparr>] ''#FF0000'' rectangle,
           createShape (''shape_2'', 2) [\<lparr>x = 1, y = 1\<rparr>, \<lparr>x = 2, y = 2\<rparr>] ''#00FF00'' circle] \<and>
        currentStore (handleStoreChange Redux m) = Redux \<and>
        useCanvasStore (handleStoreChange Redux m) = initialCanvasState \<and>
        shapes (useCanvasStore (handleStoreChange Redux m)) = [] \<and>
        useCanvasStore (handleStoreChange Context m) = initialCanvasState \<and>
        shapes (useCanvasStore (handleStoreChange Context m)) = [])"
  by (simp add: initialStoreManager_def dispatch_def handleStoreChange_def useCanvasStore_def
      initialCanvasState_def Let_def addToHistory_default_def addToHistory_def js_slice_def
      js_slice_from_def)

end
